theory Spec2Isabelle
  imports Complex_Main "HOL-Library.AList"
begin

section \<open>The scene: the part of d3 and of the DOM that Diagram.js drives\<close>

text \<open>
  Diagram.js keeps references to DOM elements (\<open>this._svg\<close>, \<open>this._group\<close>,
  \<open>this._el\<close>) and looks elements up in the one global document
  (\<open>document.getElementById\<close>, \<open>d3.select\<close> with an id or class selector). The document is
  modelled as an ordered tree of elements; a reference to an element is its \<open>handle\<close>, a
  number given to the element when it is created and never reused. An operation through a
  reference whose element is not (or no longer) in the tree leaves the document as it is: a
  detached element is invisible to every lookup the source makes.

  Numbers that reach strings (coordinates, sizes, indices) are integers, and JavaScript's
  conversion of such a number to a string is its decimal numeral.
\<close>

type_synonym handle = nat

text \<open>The four closures that \<open>_renderNode\<close> registers as pointer listeners.\<close>

datatype listener = OnMouseDown string | OnMouseUp string | HighlightNode string bool

record elem =
  e_handle :: handle
  e_tag :: string
  e_attrs :: "(string \<times> string) list"
  e_classes :: "string list"
  e_css :: "(string \<times> string) list"
  e_listeners :: "(string \<times> listener) list"
  e_html :: string

datatype dom = Element elem "dom list"

fun root_elem :: "dom \<Rightarrow> elem" where
  "root_elem (Element e ks) = e"

fun kids :: "dom \<Rightarrow> dom list" where
  "kids (Element e ks) = ks"

text \<open>Document order: an element before its descendants, siblings left to right.\<close>

fun elements :: "dom \<Rightarrow> elem list" where
  "elements (Element e ks) = e # concat (map elements ks)"

fun subtrees :: "dom \<Rightarrow> dom list" where
  "subtrees (Element e ks) = Element e ks # concat (map subtrees ks)"

definition handles :: "dom \<Rightarrow> handle list" where
  "handles t = map e_handle (elements t)"

definition lookup :: "handle \<Rightarrow> dom \<Rightarrow> dom option" where
  "lookup h t = find (\<lambda>s. e_handle (root_elem s) = h) (subtrees t)"


definition children_of :: "handle \<Rightarrow> dom \<Rightarrow> dom list" where
  "children_of h t = (case lookup h t of None \<Rightarrow> [] | Some s \<Rightarrow> kids s)"

definition new_elem :: "handle \<Rightarrow> string \<Rightarrow> elem" where
  "new_elem h tg =
     \<lparr>e_handle = h, e_tag = tg, e_attrs = [], e_classes = [], e_css = [],
      e_listeners = [], e_html = []\<rparr>"

fun dom_update :: "handle \<Rightarrow> (elem \<Rightarrow> elem) \<Rightarrow> dom \<Rightarrow> dom" where
  "dom_update h f (Element e ks) =
     Element (if e_handle e = h then f e else e) (map (dom_update h f) ks)"

fun dom_append :: "handle \<Rightarrow> dom \<Rightarrow> dom \<Rightarrow> dom" where
  "dom_append p new (Element e ks) =
     (if e_handle e = p then Element e (ks @ [new])
      else Element e (map (dom_append p new) ks))"

text \<open>
  \<open>selection.html(value)\<close> replaces the content of the element. The markup is kept as the
  string it is given as; it is not parsed into further elements.
\<close>

fun dom_html :: "handle \<Rightarrow> string \<Rightarrow> dom \<Rightarrow> dom" where
  "dom_html h s (Element e ks) =
     (if e_handle e = h then Element (e\<lparr>e_html := s\<rparr>) []
      else Element e (map (dom_html h s) ks))"

text \<open>
  \<open>selection.remove()\<close> detaches the element, with everything below it, from its parent. The
  root of the tree has no parent and stays.
\<close>

fun dom_remove :: "handle \<Rightarrow> dom \<Rightarrow> dom" where
  "dom_remove h (Element e ks) =
     Element e (map (dom_remove h) (filter (\<lambda>k. e_handle (root_elem k) \<noteq> h) ks))"

subsection \<open>Class lists\<close>

definition is_space :: "char \<Rightarrow> bool" where
  "is_space c = (c \<in> set [CHR '' '', CHR 0x09, CHR 0x0A, CHR 0x0C, CHR 0x0D])"

text \<open>The tokens of a \<open>class\<close> attribute value: the maximal runs without white space.\<close>

fun class_tokens :: "string \<Rightarrow> string \<Rightarrow> string list" where
  "class_tokens cur [] = (if cur = [] then [] else [cur])"
| "class_tokens cur (c # cs) =
     (if is_space c then (if cur = [] then class_tokens [] cs else cur # class_tokens [] cs)
      else class_tokens (cur @ [c]) cs)"

definition has_class :: "string \<Rightarrow> elem \<Rightarrow> bool" where
  "has_class c e = (c \<in> set (e_classes e))"

definition set_class_attr :: "string \<Rightarrow> elem \<Rightarrow> elem" where
  "set_class_attr v e = e\<lparr>e_classes := class_tokens [] v\<rparr>"

text \<open>
  \<open>selection.classed(name, flag)\<close> for a class name that is one token, as the names of the
  style sheet module are.
\<close>

definition set_classed :: "string \<Rightarrow> bool \<Rightarrow> elem \<Rightarrow> elem" where
  "set_classed c flag e =
     (if flag then (if c \<in> set (e_classes e) then e else e\<lparr>e_classes := e_classes e @ [c]\<rparr>)
      else e\<lparr>e_classes := filter (\<lambda>x. x \<noteq> c) (e_classes e)\<rparr>)"

definition set_attr :: "string \<Rightarrow> string \<Rightarrow> elem \<Rightarrow> elem" where
  "set_attr k v e = e\<lparr>e_attrs := AList.update k v (e_attrs e)\<rparr>"

definition set_css :: "string \<Rightarrow> string \<Rightarrow> elem \<Rightarrow> elem" where
  "set_css k v e = e\<lparr>e_css := AList.update k v (e_css e)\<rparr>"

definition set_listener :: "string \<Rightarrow> listener \<Rightarrow> elem \<Rightarrow> elem" where
  "set_listener ty l e = e\<lparr>e_listeners := AList.update ty l (e_listeners e)\<rparr>"

definition attr_of :: "elem \<Rightarrow> string \<Rightarrow> string option" where
  "attr_of e k = map_of (e_attrs e) k"

definition css_of :: "elem \<Rightarrow> string \<Rightarrow> string option" where
  "css_of e k = map_of (e_css e) k"

subsection \<open>Lookups in the global document\<close>

text \<open>
  \<open>document.getElementById(name)\<close>: the first element in document order whose id is
  \<open>name\<close>; an empty id is no id.

  \<open>d3.select(selector)\<close> is \<open>document.querySelector(selector)\<close>: the browser parses the
  string as a CSS selector and answers with the first element in document order that
  matches, with nothing (d3's empty selection, on which every operation is a no-op), or
  with a SyntaxError for a string that is no selector. The browser's selector engine is an
  input of the model (the field \<open>querySelector\<close> of the state below). What CSS prescribes
  for the two shapes of selector Diagram.js builds, \<open>"#" + name\<close> and \<open>"." + class\<close>,
  when the name is a CSS identifier, are the two lookups \<open>d3_select_id\<close> and
  \<open>d3_select_class\<close>.
\<close>

definition getElementById :: "dom \<Rightarrow> string \<Rightarrow> elem option" where
  "getElementById t nm =
     (if nm = [] then None else find (\<lambda>e. attr_of e ''id'' = Some nm) (elements t))"

definition d3_select_id :: "dom \<Rightarrow> string \<Rightarrow> handle option" where
  "d3_select_id t nm = map_option e_handle (find (\<lambda>e. attr_of e ''id'' = Some nm) (elements t))"

definition d3_select_class :: "dom \<Rightarrow> string \<Rightarrow> handle option" where
  "d3_select_class t c = map_option e_handle (find (has_class c) (elements t))"

definition sel_classed :: "handle option \<Rightarrow> string \<Rightarrow> bool \<Rightarrow> dom \<Rightarrow> dom" where
  "sel_classed sel c flag t =
     (case sel of None \<Rightarrow> t | Some h \<Rightarrow> dom_update h (set_classed c flag) t)"

text \<open>The handles of the elements that carry a class, in document order.\<close>

definition classed_handles :: "string \<Rightarrow> dom \<Rightarrow> handle list" where
  "classed_handles c t = map e_handle (filter (has_class c) (elements t))"

subsection \<open>Numbers and strings\<close>

definition digit_char :: "nat \<Rightarrow> char" where
  "digit_char n = ''0123456789'' ! n"

text \<open>The decimal numeral of a natural number, and of an integer (\<open>String(n)\<close>).\<close>

fun decimal :: "nat \<Rightarrow> string" where
  "decimal n = (if 10 \<le> n then decimal (n div 10) else []) @ [digit_char (n mod 10)]"

declare decimal.simps [simp del]

definition number_string :: "int \<Rightarrow> string" where
  "number_string i = (if 0 \<le> i then decimal (nat i) else CHR ''-'' # decimal (nat (- i)))"

text \<open>
  \<open>Math.max.apply(Math, xs)\<close>: the greatest of the numbers, and \<open>-Infinity\<close> when there is
  none.
\<close>

datatype jsnum = Num int | NegInfinity

fun math_max :: "int list \<Rightarrow> jsnum" where
  "math_max [] = NegInfinity"
| "math_max (x # xs) = Num (fold max xs x)"

fun num_str :: "jsnum \<Rightarrow> string" where
  "num_str (Num i) = number_string i"
| "num_str NegInfinity = ''-Infinity''"

fun join :: "string \<Rightarrow> string list \<Rightarrow> string" where
  "join sep [] = []"
| "join sep [x] = x"
| "join sep (x # y # ys) = x @ sep @ join sep (y # ys)"

definition nth_opt :: "'a list \<Rightarrow> nat \<Rightarrow> 'a option" where
  "nth_opt xs i = (if i < length xs then Some (xs ! i) else None)"

section \<open>The data model\<close>

record node =
  node_name :: string
  node_group :: "string option"
  node_icon :: "string option"

record edge =
  edge_start :: string
  edge_end :: string
  edge_type :: string

text \<open>The argument of \<open>setData\<close>: either list may be missing (\<open>data.nodes || []\<close>).\<close>

record data =
  data_nodes :: "node list option"
  data_edges :: "edge list option"

text \<open>The request sent to the layout engine (\<open>_getElkGraph\<close>).\<close>

record elk_child =
  child_id :: string
  child_width :: int
  child_height :: int

record elk_edge =
  elk_edge_id :: string
  sources :: "string list"
  targets :: "string list"

record elk_graph =
  graph_id :: string
  properties :: "(string \<times> string) list"
  children :: "elk_child list"
  edges :: "elk_edge list"

text \<open>
  The engine's answer, as Diagram.js reads it: \<open>layout.children[i].{x,y,width,height}\<close> and
  \<open>layout.edges[i].sections[0].{startPoint,endPoint,bendPoints}\<close>. The engine is external; its
  answer is an input of the model.
\<close>

record point =
  pt_x :: int
  pt_y :: int

record route_section =
  startPoint :: "point option"
  endPoint :: "point option"
  bendPoints :: "point list option"

record layout_edge =
  sections :: "route_section list"

record layout_child =
  c_x :: int
  c_y :: int
  c_width :: int
  c_height :: int

record layout =
  l_children :: "layout_child list"
  l_edges :: "layout_edge list"

text \<open>\<open>getBoundingClientRect()\<close>: the box the browser reports for an element.\<close>

record rect =
  r_top :: real
  r_left :: real
  r_width :: real
  r_height :: real

text \<open>
  \<open>d3.event\<close>, as far as \<open>highlightNode\<close> reads it: the tag name of the event's related
  target, \<open>None\<close> when there is no related target.
\<close>

record pointer_event =
  relatedTarget :: "string option"

text \<open>The class names imported from Diagram.css (\<open>style.node\<close>, \<open>style["node-selected"]\<close>, ...).\<close>

record css_module =
  style_diagram :: string
  style_node :: string
  style_node_selected :: string
  style_node_highlighted :: string
  style_node_text :: string
  style_icon :: string

record options =
  elkWorkerUrl :: "string option"
  groupColors :: "(string \<times> string) list option"

datatype error = Thrown string | TypeError | SyntaxError

datatype arg = Str string | Bool bool

subsection \<open>The event registry\<close>

text \<open>
  Modelled from the spec: the Observable of \<open>./utils/Observable\<close> is not among the sources.
  The specification describes it as an explicit mapping from event name to an ordered list
  of handler references, with \<open>on\<close>, \<open>off\<close> and \<open>fire\<close> as its operations and \<open>destroy\<close>
  clearing the mapping.
\<close>

type_synonym handler = nat

type_synonym observable = "(string \<times> handler list) list"

text \<open>Modelled from the spec: the constructor of the missing Observable, given the event names.\<close>

definition new_Observable :: "string list \<Rightarrow> observable" where
  "new_Observable events = map (\<lambda>ev. (ev, [])) events"



text \<open>Modelled from the spec: \<open>destroy\<close> of the missing Observable clears the mapping.\<close>

definition observable_destroy :: "observable \<Rightarrow> observable" where
  "observable_destroy ob = []"

section \<open>The Diagram object\<close>

text \<open>
  The fields \<open>this._x\<close> of the class are the fields \<open>this_x\<close> of the record. With them travel
  the global document, the counter that hands out element handles, the imported style
  module, the browser's selector engine, and \<open>fired\<close>: the trace of the calls
  \<open>this._observable.fire(name, args...)\<close> the object has made, oldest first.
  \<open>this._dragging\<close> is \<open>undefined\<close> until the first mousedown; the source only tests its
  truth, so it is a boolean that starts false.
\<close>

record diagram =
  this_observable :: observable
  this_options :: options
  this_container :: "handle option"
  this_groupColors :: "(string \<times> string) list"
  this_svg :: "handle option"
  this_group :: "handle option"
  this_el :: "handle option"
  this_nodes :: "node list"
  this_edges :: "edge list"
  this_selectedNodeName :: "string option"
  this_dragging :: bool
  this_mouseDownBB :: "rect option"
  document :: dom
  next_handle :: handle
  style :: css_module
  querySelector :: "dom \<Rightarrow> string \<Rightarrow> error + handle option"
  fired :: "(string \<times> arg list) list"

text \<open>
  A method that throws has changed the object up to the throw: the error comes with the
  state it leaves behind. A method that returns gives the new state.
\<close>

type_synonym 's result = "(error \<times> 's) + 's"

fun forEach :: "('a \<Rightarrow> 's \<Rightarrow> 's result) \<Rightarrow> 'a list \<Rightarrow> 's \<Rightarrow> 's result" where
  "forEach f [] s = Inr s"
| "forEach f (x # xs) s = (case f x s of Inl err \<Rightarrow> Inl err | Inr s' \<Rightarrow> forEach f xs s')"

definition d3_select :: "diagram \<Rightarrow> string \<Rightarrow> error + handle option" where
  "d3_select d selector = querySelector d (document d) selector"

definition fire :: "diagram \<Rightarrow> string \<Rightarrow> arg list \<Rightarrow> diagram" where
  "fire d ev args = d\<lparr>fired := fired d @ [(ev, args)]\<rparr>"

subsection \<open>d3 selections of one element\<close>

definition d3_append :: "diagram \<Rightarrow> handle \<Rightarrow> string \<Rightarrow> handle \<times> diagram" where
  "d3_append d parent tg =
     (let n = next_handle d
      in (n, d\<lparr>document := dom_append parent (Element (new_elem n tg) []) (document d),
                next_handle := Suc n\<rparr>))"

definition d3_attr :: "diagram \<Rightarrow> handle \<Rightarrow> string \<Rightarrow> string \<Rightarrow> diagram" where
  "d3_attr d h k v = d\<lparr>document := dom_update h (set_attr k v) (document d)\<rparr>"

definition d3_attr_class :: "diagram \<Rightarrow> handle \<Rightarrow> string \<Rightarrow> diagram" where
  "d3_attr_class d h v = d\<lparr>document := dom_update h (set_class_attr v) (document d)\<rparr>"

definition d3_style :: "diagram \<Rightarrow> handle \<Rightarrow> string \<Rightarrow> string \<Rightarrow> diagram" where
  "d3_style d h k v = d\<lparr>document := dom_update h (set_css k v) (document d)\<rparr>"

definition d3_classed :: "diagram \<Rightarrow> handle \<Rightarrow> string \<Rightarrow> bool \<Rightarrow> diagram" where
  "d3_classed d h c flag = d\<lparr>document := dom_update h (set_classed c flag) (document d)\<rparr>"

definition d3_on :: "diagram \<Rightarrow> handle \<Rightarrow> string \<Rightarrow> listener \<Rightarrow> diagram" where
  "d3_on d h ty l = d\<lparr>document := dom_update h (set_listener ty l) (document d)\<rparr>"

definition d3_html :: "diagram \<Rightarrow> handle \<Rightarrow> string \<Rightarrow> diagram" where
  "d3_html d h s = d\<lparr>document := dom_html h s (document d)\<rparr>"

definition d3_remove :: "diagram \<Rightarrow> handle \<Rightarrow> diagram" where
  "d3_remove d h = d\<lparr>document := dom_remove h (document d)\<rparr>"

subsection \<open>Construction, subscription, teardown\<close>

text \<open>
  \<open>new Diagram(options)\<close>, for an options object: a missing or empty \<open>elkWorkerUrl\<close> is
  falsy. The page the widget lives in, the first free handle, the style module and the
  selector engine are the environment of the construction.
\<close>

definition new_Diagram ::
  "css_module \<Rightarrow> dom \<Rightarrow> handle \<Rightarrow> (dom \<Rightarrow> string \<Rightarrow> error + handle option) \<Rightarrow> options
   \<Rightarrow> error + diagram" where
  "new_Diagram sty page free engine opts =
     (if elkWorkerUrl opts = None \<or> elkWorkerUrl opts = Some []
      then Inl (Thrown ''ELK worker URL has to be specified'')
      else Inr \<lparr>this_observable = new_Observable [''nodeClick'', ''nodeHighlight''],
                this_options = opts,
                this_container = None,
                this_groupColors = (case groupColors opts of None \<Rightarrow> [] | Some gc \<Rightarrow> gc),
                this_svg = None, this_group = None, this_el = None,
                this_nodes = [], this_edges = [],
                this_selectedNodeName = None, this_dragging = False, this_mouseDownBB = None,
                document = page, next_handle = free, style = sty,
                querySelector = engine, fired = []\<rparr>)"



definition destroy :: "diagram \<Rightarrow> diagram result" where
  "destroy d =
     (let d = d\<lparr>this_observable := observable_destroy (this_observable d)\<rparr>
      in case this_el d of
           None \<Rightarrow> Inl (TypeError, d)
         | Some el \<Rightarrow>
             (let d = d3_remove d el
              in case this_group d of
                   None \<Rightarrow> Inl (TypeError, d)
                 | Some g \<Rightarrow> Inr (d3_remove d g)))"

text \<open>
  \<open>render(selector)\<close>: the argument, a selector string or a DOM element, is given as the
  handle of the element it stands for. The \<open>svg:\<close> prefix of a tag name only chooses the
  namespace; the tag is the local name.
\<close>

definition render :: "diagram \<Rightarrow> handle \<Rightarrow> diagram" where
  "render d selector =
     (let d = d\<lparr>this_container := Some selector\<rparr>;
          (svg, d) = d3_append d selector ''svg'';
          d = d3_style d svg ''position'' ''absolute'';
          d = d3_attr d svg ''pointer-events'' ''none'';
          d = d\<lparr>this_svg := Some svg\<rparr>;
          (g, d) = d3_append d svg ''g'';
          d = d\<lparr>this_group := Some g\<rparr>;
          (defs, d) = d3_append d g ''defs'';
          (marker, d) = d3_append d defs ''marker'';
          d = d3_attr d marker ''id'' ''end'';
          d = d3_attr d marker ''viewBox'' ''0 -5 10 10'';
          d = d3_attr d marker ''refX'' ''10'';
          d = d3_attr d marker ''refY'' ''0'';
          d = d3_attr d marker ''markerWidth'' ''4'';
          d = d3_attr d marker ''markerHeight'' ''4'';
          d = d3_attr d marker ''orient'' ''auto'';
          d = d3_style d marker ''fill'' ''#546E7A'';
          d = d3_style d marker ''stroke-opacity'' ''0.6'';
          (arrow, d) = d3_append d marker ''path'';
          d = d3_attr d arrow ''d'' ''M0,-5L10,0L0,5'';
          (el, d) = d3_append d selector ''div'';
          d = d3_classed d el (style_diagram (style d)) True
      in d\<lparr>this_el := Some el\<rparr>)"

subsection \<open>The layout request\<close>

definition getRootProperties :: "diagram \<Rightarrow> (string \<times> string) list" where
  "getRootProperties d = [(''algorithm'', ''layered''), (''direction'', ''RIGHT'')]"

definition getElkGraph :: "diagram \<Rightarrow> elk_graph" where
  "getElkGraph d =
     \<lparr>graph_id = ''root'',
      properties = getRootProperties d,
      children = map (\<lambda>node. \<lparr>child_id = node_name node, child_width = 200, child_height = 50\<rparr>)
                   (this_nodes d),
      edges = map (\<lambda>(index, edge). \<lparr>elk_edge_id = ''edge_'' @ decimal index,
                                      sources = [edge_start edge],
                                      targets = [edge_end edge]\<rparr>)
                (enumerate 0 (this_edges d))\<rparr>"

subsection \<open>Applying the layout\<close>

definition setGraphSize :: "diagram \<Rightarrow> layout_child list \<Rightarrow> diagram result" where
  "setGraphSize d nodes =
     (let maxHeight = math_max (map (\<lambda>node. c_y node + c_height node) nodes);
          maxWidth = math_max (map (\<lambda>node. c_x node + c_width node) nodes)
      in case this_el d of
           None \<Rightarrow> Inl (TypeError, d)
         | Some el \<Rightarrow>
             (let d = d3_style d el ''width'' (num_str maxWidth @ ''px'');
                  d = d3_style d el ''height'' (num_str maxHeight @ ''px'')
              in case this_svg d of
                   None \<Rightarrow> Inl (TypeError, d)
                 | Some svg \<Rightarrow>
                     (let d = d3_attr d svg ''width'' (num_str maxWidth);
                          d = d3_attr d svg ''height'' (num_str maxHeight)
                      in Inr d)))"

text \<open>
  \<open>this._groupColors[node.group] || "#2196F3"\<close>: a missing group reads the key
  \<open>"undefined"\<close>, and an empty colour string is falsy. Only the colours the embedder gave
  are looked up.
\<close>

definition group_color :: "diagram \<Rightarrow> node \<Rightarrow> string" where
  "group_color d node =
     (case map_of (this_groupColors d)
             (case node_group node of None \<Rightarrow> ''undefined'' | Some g \<Rightarrow> g) of
        None \<Rightarrow> ''#2196F3''
      | Some c \<Rightarrow> if c = [] then ''#2196F3'' else c)"

definition renderNode :: "diagram \<Rightarrow> node \<Rightarrow> (string \<times> int) list \<Rightarrow> diagram result" where
  "renderNode d node styles =
     (let color = group_color d node;
          styleStr = join '';'' (map (\<lambda>(k, v). k @ '':'' @ number_string v @ ''px'') styles)
                     @ ''; background-color:'' @ color
      in case this_el d of
           None \<Rightarrow> Inl (TypeError, d)
         | Some el \<Rightarrow>
             (let (nodeEl, d) = d3_append d el ''div'';
                  d = d3_attr d nodeEl ''style'' styleStr;
                  d = d3_attr_class d nodeEl (style_node (style d));
                  d = d3_attr d nodeEl ''id'' (node_name node);
                  d = d3_on d nodeEl ''mousedown'' (OnMouseDown (node_name node));
                  d = d3_on d nodeEl ''mouseup'' (OnMouseUp (node_name node));
                  d = d3_on d nodeEl ''mouseover'' (HighlightNode (node_name node) True);
                  d = d3_on d nodeEl ''mouseout'' (HighlightNode (node_name node) False);
                  (textEl, d) = d3_append d nodeEl ''div'';
                  d = d3_attr_class d textEl (style_node_text (style d));
                  (iconEl, d) = d3_append d textEl ''i'';
                  d = d3_attr_class d iconEl
                        (''zmdi '' @ (case node_icon node of None \<Rightarrow> ''undefined'' | Some ic \<Rightarrow> ic));
                  d = d3_classed d iconEl (style_icon (style d)) True;
                  (spanEl, d) = d3_append d textEl ''span'';
                  d = d3_html d spanEl (node_name node)
              in Inr d))"

text \<open>\<open>_getEdgeOverlay\<close> is defined by the class and called nowhere.\<close>

datatype overlay = PlainArrow int int int

definition getEdgeOverlay :: "edge \<Rightarrow> overlay list option" where
  "getEdgeOverlay edge =
     map_of [(''arrow'', [PlainArrow 1 10 10]), (''link'', [])] (edge_type edge)"

definition path_d :: "route_section \<Rightarrow> string" where
  "path_d sec =
     (case (startPoint sec, endPoint sec) of
        (Some sp, Some ep) \<Rightarrow>
          ''M'' @ number_string (pt_x sp) @ '' '' @ number_string (pt_y sp) @ '' ''
          @ concat (map (\<lambda>bp. ''L'' @ number_string (pt_x bp) @ '' '' @ number_string (pt_y bp) @ '' '')
                      (case bendPoints sec of None \<Rightarrow> [] | Some bps \<Rightarrow> bps))
          @ ''L'' @ number_string (pt_x ep) @ '' '' @ number_string (pt_y ep) @ '' ''
      | _ \<Rightarrow> [])"

text \<open>
  The body of the loop of \<open>_renderEdges\<close>, for the edge at index \<open>i\<close>. Reading
  \<open>layout.edges[i].sections[0]\<close> where the layout has no such edge or the edge no section is
  a TypeError, raised when the path is already appended.
\<close>

definition renderEdge :: "layout \<Rightarrow> nat \<times> edge \<Rightarrow> diagram \<Rightarrow> diagram result" where
  "renderEdge lay ie d =
     (case this_group d of
        None \<Rightarrow> Inl (TypeError, d)
      | Some g \<Rightarrow>
          (let (link, d) = d3_append d g ''path'';
               d = d3_attr_class d link ''link'';
               d = d3_attr d link ''stroke'' ''#546E7A'';
               d = d3_attr d link ''stroke-width'' ''2'';
               d = d3_attr d link ''fill'' ''transparent''
           in case nth_opt (l_edges lay) (fst ie) of
                None \<Rightarrow> Inl (TypeError, d)
              | Some le \<Rightarrow>
                  (case sections le of
                     [] \<Rightarrow> Inl (TypeError, d)
                   | sec # _ \<Rightarrow>
                       (let d = d3_attr d link ''d'' (path_d sec)
                        in if edge_type (snd ie) = ''arrow''
                           then Inr (d3_attr d link ''marker-end'' ''url(#end)'')
                           else Inr d))))"

definition renderEdges :: "diagram \<Rightarrow> layout \<Rightarrow> diagram result" where
  "renderEdges d lay = forEach (renderEdge lay) (enumerate 0 (this_edges d)) d"

text \<open>
  \<open>_renderNodes\<close> builds the request, hands it to the engine and returns the promise of the
  callback below. \<open>renderNodes_then\<close> is that callback, run on the state the object has when
  the layout arrives; \<open>Inl\<close> is a rejected promise.
\<close>

definition renderNodes_item :: "layout \<Rightarrow> nat \<times> node \<Rightarrow> diagram \<Rightarrow> diagram result" where
  "renderNodes_item lay inode d =
     (case nth_opt (l_children lay) (fst inode) of
        None \<Rightarrow> Inl (TypeError, d)
      | Some c \<Rightarrow>
          renderNode d (snd inode)
            [(''top'', c_y c), (''left'', c_x c), (''width'', c_width c), (''height'', c_height c)])"

definition renderNodes_then :: "diagram \<Rightarrow> layout \<Rightarrow> diagram result" where
  "renderNodes_then d lay =
     (case forEach (renderNodes_item lay) (enumerate 0 (this_nodes d)) d of
        Inl err \<Rightarrow> Inl err
      | Inr d \<Rightarrow>
          (case renderEdges d lay of
             Inl err \<Rightarrow> Inl err
           | Inr d \<Rightarrow> setGraphSize d (l_children lay)))"

definition renderNodes :: "diagram \<Rightarrow> diagram \<times> elk_graph" where
  "renderNodes d = (d, getElkGraph d)"

text \<open>
  \<open>setData(data)\<close> throws, or returns with the layout request pending. \<open>setData_resolved\<close>
  is \<open>setData\<close> followed, with nothing in between, by the arrival of the layout.
\<close>

definition setData :: "diagram \<Rightarrow> data \<Rightarrow> (error \<times> diagram) + (diagram \<times> elk_graph)" where
  "setData d dat =
     (case this_container d of
        None \<Rightarrow> Inl (Thrown ''Diagram is not rendered'', d)
      | Some c \<Rightarrow>
          (case this_el d of
             None \<Rightarrow> Inl (TypeError, d)
           | Some el \<Rightarrow>
               (let d = d3_html d el [];
                    d = d\<lparr>this_nodes := (case data_nodes dat of None \<Rightarrow> [] | Some ns \<Rightarrow> ns)\<rparr>;
                    d = d\<lparr>this_edges := (case data_edges dat of None \<Rightarrow> [] | Some es \<Rightarrow> es)\<rparr>
                in Inr (renderNodes d))))"

definition setData_resolved :: "diagram \<Rightarrow> data \<Rightarrow> layout \<Rightarrow> diagram result" where
  "setData_resolved d dat lay =
     (case setData d dat of
        Inl err \<Rightarrow> Inl err
      | Inr (d, graph) \<Rightarrow> renderNodes_then d lay)"

subsection \<open>Selection, highlight, click\<close>


text \<open>
  \<open>highlightNode(nodeName, highlighted)\<close> reads the global \<open>d3.event\<close>, which is \<open>null\<close>
  (\<open>None\<close>) outside a d3 listener: \<open>d3.event.relatedTarget\<close> is then a TypeError, reached
  only while dragging.
\<close>

definition hover_suppressed :: "diagram \<Rightarrow> pointer_event option \<Rightarrow> error + bool" where
  "hover_suppressed d ev =
     (if this_dragging d
      then (case ev of
              None \<Rightarrow> Inl TypeError
            | Some e \<Rightarrow> Inr (relatedTarget e = Some ''path''))
      else Inr False)"

definition highlightNode :: "diagram \<Rightarrow> pointer_event option \<Rightarrow> string \<Rightarrow> bool \<Rightarrow> diagram result" where
  "highlightNode d ev nodeName highlighted =
     (case d3_select d (''#'' @ nodeName) of
        Inl err \<Rightarrow> Inl (err, d)
      | Inr nodeEl \<Rightarrow>
          (let highlightedClass = style_node_highlighted (style d)
           in case hover_suppressed d ev of
                Inl err \<Rightarrow> Inl (err, d)
              | Inr True \<Rightarrow> Inr d
              | Inr False \<Rightarrow>
                  (if highlighted
                   then
                     (case d3_select d (''.'' @ highlightedClass) of
                        Inl err \<Rightarrow> Inl (err, d)
                      | Inr current \<Rightarrow>
                          (let d = d\<lparr>document := sel_classed current highlightedClass False
                                                     (document d)\<rparr>;
                               d = d\<lparr>document := sel_classed nodeEl highlightedClass True
                                                     (document d)\<rparr>
                           in Inr (fire d ''nodeHighlight'' [Str nodeName, Bool highlighted])))
                   else
                     (case d3_select d (''.'' @ highlightedClass) of
                        Inl err \<Rightarrow> Inl (err, d)
                      | Inr current \<Rightarrow>
                          (let d = d\<lparr>document := sel_classed current highlightedClass False
                                                     (document d)\<rparr>
                           in Inr (fire d ''nodeHighlight'' [Str nodeName, Bool highlighted]))))))"

text \<open>
  The pointer listeners. \<open>rects\<close> is what \<open>getBoundingClientRect()\<close> answers for each element
  at the time of the event; the browser's geometry is an input of the model.
\<close>

definition onMouseDown :: "diagram \<Rightarrow> (handle \<Rightarrow> rect) \<Rightarrow> string \<Rightarrow> diagram result" where
  "onMouseDown d rects nodeName =
     (let d = d\<lparr>this_dragging := True\<rparr>
      in case getElementById (document d) nodeName of
           None \<Rightarrow> Inl (TypeError, d)
         | Some el \<Rightarrow> Inr (d\<lparr>this_mouseDownBB := Some (rects (e_handle el))\<rparr>))"

definition onMouseUp :: "diagram \<Rightarrow> (handle \<Rightarrow> rect) \<Rightarrow> string \<Rightarrow> diagram result" where
  "onMouseUp d rects nodeName =
     (case getElementById (document d) nodeName of
        None \<Rightarrow> Inl (TypeError, d)
      | Some el \<Rightarrow>
          (let bb = rects (e_handle el);
               d = (case this_mouseDownBB d of
                      None \<Rightarrow> d
                    | Some mouseDownBB \<Rightarrow>
                        if r_top mouseDownBB = r_top bb \<and> r_left mouseDownBB = r_left bb
                        then fire d ''nodeClick'' [Str nodeName]
                        else d)
           in Inr (d\<lparr>this_dragging := False\<rparr>)))"

section \<open>Notions used in the statements\<close>

text \<open>
  The handle counter is ahead of every element of the document, so that a new element gets
  a handle no element has.
\<close>

definition fresh :: "diagram \<Rightarrow> bool" where
  "fresh d = (\<forall>h \<in> set (handles (document d)). h < next_handle d)"



text \<open>The handles of the elements below an element, the element itself excluded.\<close>

fun inside :: "handle \<Rightarrow> dom \<Rightarrow> handle list" where
  "inside p (Element e ks) =
     (if e_handle e = p then concat (map handles ks) else concat (map (inside p) ks))"

text \<open>The layout has a first section for the edge at index \<open>i\<close>.\<close>

definition routed :: "layout \<Rightarrow> nat \<Rightarrow> bool" where
  "routed lay i = (case nth_opt (l_edges lay) i of None \<Rightarrow> False | Some le \<Rightarrow> sections le \<noteq> [])"

text \<open>
  What a path drawn for an edge looks like: a \<open>path\<close> element without children that carries
  the arrowhead marker exactly when the edge's type is "arrow".
\<close>

definition edge_visual :: "edge \<Rightarrow> dom \<Rightarrow> bool" where
  "edge_visual e v =
     (kids v = [] \<and> e_tag (root_elem v) = ''path'' \<and>
      attr_of (root_elem v) ''marker-end'' =
        (if edge_type e = ''arrow'' then Some ''url(#end)'' else None))"

text \<open>
  What every step of drawing keeps: the counter stays ahead, no element leaves the
  document, and the references and the dataset of the widget stay what they are.
\<close>

definition keeps :: "diagram \<Rightarrow> diagram \<Rightarrow> bool" where
  "keeps d d' =
     (fresh d' \<and> set (handles (document d)) \<subseteq> set (handles (document d')) \<and>
      this_el d' = this_el d \<and> this_svg d' = this_svg d \<and> this_group d' = this_group d \<and>
      this_nodes d' = this_nodes d \<and> this_edges d' = this_edges d)"

section \<open>A page and a widget to run the model on\<close>

text \<open>
  A page whose body holds one empty \<open>div\<close> (handle 1). \<open>demo_new\<close> is the widget as
  constructed on that page, \<open>demo_rendered\<close> the widget after \<open>render\<close> into the \<open>div\<close>, and
  \<open>demo_drawn\<close> the widget after a resolved \<open>setData\<close> of two nodes and three edges, of type
  "arrow", "link" and "dashed". That these are the states the model reaches is proved below.
\<close>

definition demo_style :: css_module where
  "demo_style =
     \<lparr>style_diagram = ''diagram'', style_node = ''node'',
      style_node_selected = ''node-selected'', style_node_highlighted = ''node-highlighted'',
      style_node_text = ''node-text'', style_icon = ''icon''\<rparr>"

definition demo_page :: dom where
  "demo_page = Element (new_elem 0 ''body'') [Element (new_elem 1 ''div'') []]"

definition demo_options :: options where
  "demo_options =
     \<lparr>elkWorkerUrl = Some ''elk-worker.js'', groupColors = Some [(''db'', ''#4CAF50'')]\<rparr>"

definition demo_data :: data where
  "demo_data =
     \<lparr>data_nodes = Some [\<lparr>node_name = ''A'', node_group = None, node_icon = None\<rparr>,
                         \<lparr>node_name = ''B'', node_group = Some ''db'', node_icon = Some ''storage''\<rparr>],
      data_edges = Some [\<lparr>edge_start = ''A'', edge_end = ''B'', edge_type = ''arrow''\<rparr>,
                         \<lparr>edge_start = ''B'', edge_end = ''A'', edge_type = ''link''\<rparr>,
                         \<lparr>edge_start = ''A'', edge_end = ''B'', edge_type = ''dashed''\<rparr>]\<rparr>"

definition demo_layout :: layout where
  "demo_layout =
     \<lparr>l_children = [\<lparr>c_x = 12, c_y = 12, c_width = 200, c_height = 50\<rparr>,
                     \<lparr>c_x = 232, c_y = 32, c_width = 200, c_height = 50\<rparr>],
      l_edges = [\<lparr>sections = [\<lparr>startPoint = Some \<lparr>pt_x = 212, pt_y = 37\<rparr>,
                                 endPoint = Some \<lparr>pt_x = 232, pt_y = 57\<rparr>,
                                 bendPoints = Some [\<lparr>pt_x = 222, pt_y = 37\<rparr>,
                                                    \<lparr>pt_x = 222, pt_y = 57\<rparr>]\<rparr>]\<rparr>,
                 \<lparr>sections = [\<lparr>startPoint = Some \<lparr>pt_x = 232, pt_y = 47\<rparr>,
                                 endPoint = Some \<lparr>pt_x = 212, pt_y = 27\<rparr>,
                                 bendPoints = None\<rparr>]\<rparr>,
                 \<lparr>sections = [\<lparr>startPoint = Some \<lparr>pt_x = 212, pt_y = 47\<rparr>,
                                 endPoint = Some \<lparr>pt_x = 232, pt_y = 67\<rparr>,
                                 bendPoints = Some []\<rparr>]\<rparr>]\<rparr>"

text \<open>
  The selector engine of the example answers id and class selectors whose name is made of
  letters, digits, hyphens and underscores: as CSS prescribes when the name starts with a
  letter or an underscore, and with a SyntaxError when it starts with a digit or is empty,
  as browsers do. Every other string it refuses.
\<close>

definition name_start :: "char \<Rightarrow> bool" where
  "name_start c = (c \<in> set ''abcdefghijklmnopqrstuvwxyzABCDEFGHIJKLMNOPQRSTUVWXYZ_'')"

definition name_char :: "char \<Rightarrow> bool" where
  "name_char c = (name_start c \<or> c \<in> set ''0123456789-'')"

definition css_identifier :: "string \<Rightarrow> bool" where
  "css_identifier nm = (case nm of [] \<Rightarrow> False | c # cs \<Rightarrow> name_start c \<and> list_all name_char cs)"

definition demo_querySelector :: "dom \<Rightarrow> string \<Rightarrow> error + handle option" where
  "demo_querySelector t selector =
     (case selector of
        [] \<Rightarrow> Inl SyntaxError
      | c # nm \<Rightarrow>
          if c = CHR ''#'' \<and> css_identifier nm then Inr (d3_select_id t nm)
          else if c = CHR ''.'' \<and> css_identifier nm then Inr (d3_select_class t nm)
          else Inl SyntaxError)"

definition demo_new :: diagram where
  "demo_new =
     \<lparr>this_observable = [(''nodeClick'', []), (''nodeHighlight'', [])], this_options =
     \<lparr>elkWorkerUrl = Some ''elk-worker.js'', groupColors = Some [(''db'',
     ''#4CAF50'')]\<rparr>, this_container = None, this_groupColors = [(''db'', ''#4CAF50'')],
     this_svg = None, this_group = None, this_el = None, this_nodes = [], this_edges = [],
     this_selectedNodeName = None, this_dragging = False, this_mouseDownBB = None, document =
     Element \<lparr>e_handle = 0, e_tag = ''body'', e_attrs = [], e_classes = [], e_css = [],
     e_listeners = [], e_html = []\<rparr> [Element \<lparr>e_handle = 1, e_tag = ''div'',
     e_attrs = [], e_classes = [], e_css = [], e_listeners = [], e_html = []\<rparr> []],
     next_handle = 2, style = \<lparr>style_diagram = ''diagram'', style_node = ''node'',
     style_node_selected = ''node-selected'', style_node_highlighted = ''node-highlighted'',
     style_node_text = ''node-text'', style_icon = ''icon''\<rparr>,
     querySelector = demo_querySelector, fired = []\<rparr>"

definition demo_rendered :: diagram where
  "demo_rendered =
     \<lparr>this_observable = [(''nodeClick'', []), (''nodeHighlight'', [])], this_options =
     \<lparr>elkWorkerUrl = Some ''elk-worker.js'', groupColors = Some [(''db'',
     ''#4CAF50'')]\<rparr>, this_container = Some 1, this_groupColors = [(''db'', ''#4CAF50'')],
     this_svg = Some 2, this_group = Some 3, this_el = Some 7, this_nodes = [], this_edges = [],
     this_selectedNodeName = None, this_dragging = False, this_mouseDownBB = None, document =
     Element \<lparr>e_handle = 0, e_tag = ''body'', e_attrs = [], e_classes = [], e_css = [],
     e_listeners = [], e_html = []\<rparr> [Element \<lparr>e_handle = 1, e_tag = ''div'',
     e_attrs = [], e_classes = [], e_css = [], e_listeners = [], e_html = []\<rparr> [Element
     \<lparr>e_handle = 2, e_tag = ''svg'', e_attrs = [(''pointer-events'', ''none'')],
     e_classes = [], e_css = [(''position'', ''absolute'')], e_listeners = [], e_html =
     []\<rparr> [Element \<lparr>e_handle = 3, e_tag = ''g'', e_attrs = [], e_classes = [],
     e_css = [], e_listeners = [], e_html = []\<rparr> [Element \<lparr>e_handle = 4, e_tag =
     ''defs'', e_attrs = [], e_classes = [], e_css = [], e_listeners = [], e_html = []\<rparr>
     [Element \<lparr>e_handle = 5, e_tag = ''marker'', e_attrs = [(''id'', ''end''),
     (''viewBox'', ''0 -5 10 10''), (''refX'', ''10''), (''refY'', ''0''), (''markerWidth'',
     ''4''), (''markerHeight'', ''4''), (''orient'', ''auto'')], e_classes = [], e_css =
     [(''fill'', ''#546E7A''), (''stroke-opacity'', ''0.6'')], e_listeners = [], e_html =
     []\<rparr> [Element \<lparr>e_handle = 6, e_tag = ''path'', e_attrs = [(''d'',
     ''M0,-5L10,0L0,5'')], e_classes = [], e_css = [], e_listeners = [], e_html = []\<rparr>
     []]]]], Element \<lparr>e_handle = 7, e_tag = ''div'', e_attrs = [], e_classes =
     [''diagram''], e_css = [], e_listeners = [], e_html = []\<rparr> []]], next_handle = 8,
     style = \<lparr>style_diagram = ''diagram'', style_node = ''node'', style_node_selected =
     ''node-selected'', style_node_highlighted = ''node-highlighted'', style_node_text =
     ''node-text'', style_icon = ''icon''\<rparr>,
     querySelector = demo_querySelector, fired = []\<rparr>"

definition demo_drawn :: diagram where
  "demo_drawn =
     \<lparr>this_observable = [(''nodeClick'', []), (''nodeHighlight'', [])], this_options =
     \<lparr>elkWorkerUrl = Some ''elk-worker.js'', groupColors = Some [(''db'',
     ''#4CAF50'')]\<rparr>, this_container = Some 1, this_groupColors = [(''db'', ''#4CAF50'')],
     this_svg = Some 2, this_group = Some 3, this_el = Some 7, this_nodes = [\<lparr>node_name =
     ''A'', node_group = None, node_icon = None\<rparr>, \<lparr>node_name = ''B'', node_group =
     Some ''db'', node_icon = Some ''storage''\<rparr>], this_edges = [\<lparr>edge_start =
     ''A'', edge_end = ''B'', edge_type = ''arrow''\<rparr>, \<lparr>edge_start = ''B'',
     edge_end = ''A'', edge_type = ''link''\<rparr>, \<lparr>edge_start = ''A'', edge_end =
     ''B'', edge_type = ''dashed''\<rparr>], this_selectedNodeName = None, this_dragging =
     False, this_mouseDownBB = None, document = Element \<lparr>e_handle = 0, e_tag = ''body'',
     e_attrs = [], e_classes = [], e_css = [], e_listeners = [], e_html = []\<rparr> [Element
     \<lparr>e_handle = 1, e_tag = ''div'', e_attrs = [], e_classes = [], e_css = [],
     e_listeners = [], e_html = []\<rparr> [Element \<lparr>e_handle = 2, e_tag = ''svg'',
     e_attrs = [(''pointer-events'', ''none''), (''width'', ''432''), (''height'', ''82'')],
     e_classes = [], e_css = [(''position'', ''absolute'')], e_listeners = [], e_html =
     []\<rparr> [Element \<lparr>e_handle = 3, e_tag = ''g'', e_attrs = [], e_classes = [],
     e_css = [], e_listeners = [], e_html = []\<rparr> [Element \<lparr>e_handle = 4, e_tag =
     ''defs'', e_attrs = [], e_classes = [], e_css = [], e_listeners = [], e_html = []\<rparr>
     [Element \<lparr>e_handle = 5, e_tag = ''marker'', e_attrs = [(''id'', ''end''),
     (''viewBox'', ''0 -5 10 10''), (''refX'', ''10''), (''refY'', ''0''), (''markerWidth'',
     ''4''), (''markerHeight'', ''4''), (''orient'', ''auto'')], e_classes = [], e_css =
     [(''fill'', ''#546E7A''), (''stroke-opacity'', ''0.6'')], e_listeners = [], e_html =
     []\<rparr> [Element \<lparr>e_handle = 6, e_tag = ''path'', e_attrs = [(''d'',
     ''M0,-5L10,0L0,5'')], e_classes = [], e_css = [], e_listeners = [], e_html = []\<rparr>
     []]], Element \<lparr>e_handle = 16, e_tag = ''path'', e_attrs = [(''stroke'',
     ''#546E7A''), (''stroke-width'', ''2''), (''fill'', ''transparent''), (''d'',
     ''M212 37 L222 37 L222 57 L232 57 ''), (''marker-end'', ''url(#end)'')], e_classes =
     [''link''], e_css = [], e_listeners = [], e_html = []\<rparr> [], Element \<lparr>e_handle
     = 17, e_tag = ''path'', e_attrs = [(''stroke'', ''#546E7A''), (''stroke-width'', ''2''),
     (''fill'', ''transparent''), (''d'', ''M232 47 L212 27 '')], e_classes = [''link''], e_css
     = [], e_listeners = [], e_html = []\<rparr> [], Element \<lparr>e_handle = 18, e_tag =
     ''path'', e_attrs = [(''stroke'', ''#546E7A''), (''stroke-width'', ''2''), (''fill'',
     ''transparent''), (''d'', ''M212 47 L232 67 '')], e_classes = [''link''], e_css = [],
     e_listeners = [], e_html = []\<rparr> []]], Element \<lparr>e_handle = 7, e_tag = ''div'',
     e_attrs = [], e_classes = [''diagram''], e_css = [(''width'', ''432px''), (''height'',
     ''82px'')], e_listeners = [], e_html = []\<rparr> [Element \<lparr>e_handle = 8, e_tag =
     ''div'', e_attrs = [(''style'',
     ''top:12px;left:12px;width:200px;height:50px; background-color:#2196F3''), (''id'',
     ''A'')], e_classes = [''node''], e_css = [], e_listeners = [(''mousedown'', OnMouseDown
     ''A''), (''mouseup'', OnMouseUp ''A''), (''mouseover'', HighlightNode ''A'' True),
     (''mouseout'', HighlightNode ''A'' False)], e_html = []\<rparr> [Element \<lparr>e_handle =
     9, e_tag = ''div'', e_attrs = [], e_classes = [''node-text''], e_css = [], e_listeners =
     [], e_html = []\<rparr> [Element \<lparr>e_handle = 10, e_tag = ''i'', e_attrs = [],
     e_classes = [''zmdi'', ''undefined'', ''icon''], e_css = [], e_listeners = [], e_html =
     []\<rparr> [], Element \<lparr>e_handle = 11, e_tag = ''span'', e_attrs = [], e_classes =
     [], e_css = [], e_listeners = [], e_html = ''A''\<rparr> []]], Element \<lparr>e_handle =
     12, e_tag = ''div'', e_attrs = [(''style'',
     ''top:32px;left:232px;width:200px;height:50px; background-color:#4CAF50''), (''id'',
     ''B'')], e_classes = [''node''], e_css = [], e_listeners = [(''mousedown'', OnMouseDown
     ''B''), (''mouseup'', OnMouseUp ''B''), (''mouseover'', HighlightNode ''B'' True),
     (''mouseout'', HighlightNode ''B'' False)], e_html = []\<rparr> [Element \<lparr>e_handle =
     13, e_tag = ''div'', e_attrs = [], e_classes = [''node-text''], e_css = [], e_listeners =
     [], e_html = []\<rparr> [Element \<lparr>e_handle = 14, e_tag = ''i'', e_attrs = [],
     e_classes = [''zmdi'', ''storage'', ''icon''], e_css = [], e_listeners = [], e_html =
     []\<rparr> [], Element \<lparr>e_handle = 15, e_tag = ''span'', e_attrs = [], e_classes =
     [], e_css = [], e_listeners = [], e_html = ''B''\<rparr> []]]]]], next_handle = 19, style =
     \<lparr>style_diagram = ''diagram'', style_node = ''node'', style_node_selected =
     ''node-selected'', style_node_highlighted = ''node-highlighted'', style_node_text =
     ''node-text'', style_icon = ''icon''\<rparr>,
     querySelector = demo_querySelector, fired = []\<rparr>"

text \<open>A second dataset, of one node and no edge, with its layout.\<close>

definition demo_second_data :: data where
  "demo_second_data =
     \<lparr>data_nodes = Some [\<lparr>node_name = ''C'', node_group = None, node_icon = None\<rparr>],
      data_edges = None\<rparr>"

definition demo_second_layout :: layout where
  "demo_second_layout =
     \<lparr>l_children = [\<lparr>c_x = 12, c_y = 12, c_width = 200, c_height = 50\<rparr>], l_edges = []\<rparr>"

definition rect_at :: "real \<Rightarrow> real \<Rightarrow> handle \<Rightarrow> rect" where
  "rect_at t l h = \<lparr>r_top = t, r_left = l, r_width = 200, r_height = 50\<rparr>"

text \<open>
  \<open>demo_pressed\<close> is \<open>demo_drawn\<close> after a mousedown on node A. The two pointer events are a
  pointer that comes from a \<open>div\<close> and one that comes from a \<open>path\<close>.
\<close>

definition demo_pressed :: diagram where
  "demo_pressed =
     demo_drawn\<lparr>this_dragging := True,
                this_mouseDownBB := Some \<lparr>r_top = 12, r_left = 12, r_width = 200, r_height = 50\<rparr>\<rparr>"

definition demo_enter :: "pointer_event option" where
  "demo_enter = Some \<lparr>relatedTarget = Some ''DIV''\<rparr>"


section \<open>Properties\<close>

lemmas d3_defs =
  d3_append_def d3_attr_def d3_attr_class_def d3_style_def d3_classed_def d3_on_def
  d3_html_def d3_remove_def

lemmas el_defs =
  new_elem_def set_attr_def set_css_def set_classed_def set_class_attr_def set_listener_def
  attr_of_def css_of_def has_class_def

lemmas run_defs =
  render_def Let_def d3_defs el_defs children_of_def
  lookup_def setData_resolved_def setData_def renderNodes_def renderNodes_then_def
  renderNodes_item_def renderNode_def renderEdges_def renderEdge_def setGraphSize_def
  getElkGraph_def getRootProperties_def nth_opt_def group_color_def number_string_def
  decimal.simps digit_char_def path_d_def enumerate_eq_zip is_space_def destroy_def
  observable_destroy_def

subsection \<open>Strings\<close>

lemma string_examples:
  "decimal 0 = ''0''"
  "decimal 10 = ''10''"
  "decimal 205 = ''205''"
  "number_string (- 37) = ''-37''"
  "join '';'' [''a'', ''b'', ''c''] = ''a;b;c''"
  "class_tokens [] ''zmdi  home '' = [''zmdi'', ''home'']"
  by (simp_all add: decimal.simps digit_char_def number_string_def is_space_def)

subsection \<open>The states of the example are the states the model reaches\<close>

lemma demo_constructed:
  "new_Diagram demo_style demo_page 2 demo_querySelector demo_options = Inr demo_new"
  by (simp add: new_Diagram_def new_Observable_def demo_new_def demo_options_def demo_style_def
        demo_page_def new_elem_def)

lemma demo_render: "render demo_new 1 = demo_rendered"
  by (simp add: demo_new_def demo_rendered_def run_defs)


lemma demo_mouseDown: "onMouseDown demo_drawn (rect_at 12 12) ''A'' = Inr demo_pressed"
  by (simp add: demo_pressed_def demo_drawn_def onMouseDown_def getElementById_def attr_of_def
        rect_at_def)

lemma demo_new_facts:
  "this_container demo_new = None"
  by (simp_all add: demo_new_def)


lemma demo_drawn_facts:
  "this_mouseDownBB demo_drawn = None"
  "fired demo_drawn = []"
  "this_dragging demo_drawn = False"
  "style demo_drawn = demo_style"
  "this_el demo_drawn = Some 7"
  "this_svg demo_drawn = Some 2"
  "this_group demo_drawn = Some 3"
  "this_container demo_drawn = Some 1"
  "next_handle demo_drawn = 19"
  "querySelector demo_drawn = demo_querySelector"
  "length (this_edges demo_drawn) = 3"
  "map edge_type (this_edges demo_drawn) = [''arrow'', ''link'', ''dashed'']"
  by (simp_all add: demo_drawn_def demo_style_def)

lemma demo_drawn_lookups:
  "map_option e_handle (getElementById (document demo_drawn) ''A'') = Some 8"
  "map_option e_handle (getElementById (document demo_drawn) ''B'') = Some 12"
  "getElementById (document demo_drawn) ''Z'' = None"
  "d3_select_id (document demo_drawn) ''B'' = Some 12"
  "handles (document demo_drawn)
     = [0, 1, 2, 3, 4, 5, 6, 16, 17, 18, 7, 8, 9, 10, 11, 12, 13, 14, 15]"
  "classed_handles ''node-selected'' (document demo_drawn) = []"
  "classed_handles ''node-highlighted'' (document demo_drawn) = []"
  by (simp_all add: demo_drawn_def getElementById_def d3_select_id_def handles_def
        classed_handles_def attr_of_def has_class_def)


subsection \<open>setData before render\<close>

text \<open>
  Claim C4. Calling \<open>setData\<close> on a widget that has not been rendered (\<open>this._container\<close> is
  still \<open>null\<close>) throws the string "Diagram is not rendered" at once, and the state the throw
  leaves behind is the state before the call: the document, the stored nodes and edges and
  every other field are untouched.
\<close>

theorem setData_not_rendered:
  assumes "this_container d = None"
  shows "setData d dat = Inl (Thrown ''Diagram is not rendered'', d)"
  using assms by (simp add: setData_def)

theorem setData_not_rendered_witness:
  "this_container demo_new = None \<and>
   setData demo_new demo_data = Inl (Thrown ''Diagram is not rendered'', demo_new)"
proof -
  have h: "this_container demo_new = None"
    by (rule demo_new_facts)
  from setData_not_rendered [OF h, of demo_data] h show ?thesis by simp
qed

subsection \<open>The layout request\<close>

text \<open>
  Claim C5. The request that \<open>setData\<close> hands to the layout engine for a dataset has one
  child per node, in order, with the node's name as id, width 200 and height 50; one edge
  per edge of the dataset, in order, with id \<open>"edge_"\<close> followed by the index and
  one-element \<open>sources\<close> and \<open>targets\<close> holding the edge's start and end; and the root
  properties algorithm = "layered" and direction = "RIGHT".
\<close>

theorem layout_request:
  assumes "setData d dat = Inr (d', g)"
      and "ns = (case data_nodes dat of None \<Rightarrow> [] | Some xs \<Rightarrow> xs)"
      and "es = (case data_edges dat of None \<Rightarrow> [] | Some xs \<Rightarrow> xs)"
  shows "length (children g) = length ns \<and>
         (\<forall>i < length ns. children g ! i =
             \<lparr>child_id = node_name (ns ! i), child_width = 200, child_height = 50\<rparr>) \<and>
         length (edges g) = length es \<and>
         (\<forall>j < length es. edges g ! j =
             \<lparr>elk_edge_id = ''edge_'' @ decimal j,
              sources = [edge_start (es ! j)], targets = [edge_end (es ! j)]\<rparr>) \<and>
         map_of (properties g) ''algorithm'' = Some ''layered'' \<and>
         map_of (properties g) ''direction'' = Some ''RIGHT''"
  using assms
  by (auto simp: setData_def renderNodes_def getElkGraph_def getRootProperties_def Let_def
        nth_enumerate_eq split: option.splits)

theorem layout_request_witness:
  "\<exists>d' g. setData demo_rendered demo_data = Inr (d', g) \<and>
      length (children g) = 2 \<and>
      children g ! 1 = \<lparr>child_id = ''B'', child_width = 200, child_height = 50\<rparr> \<and>
      length (edges g) = 3 \<and>
      edges g ! 2 = \<lparr>elk_edge_id = ''edge_2'', sources = [''A''], targets = [''B'']\<rparr> \<and>
      map_of (properties g) ''algorithm'' = Some ''layered'' \<and>
      map_of (properties g) ''direction'' = Some ''RIGHT''"
proof -
  obtain d' g where h: "setData demo_rendered demo_data = Inr (d', g)"
    by (simp add: setData_def renderNodes_def Let_def demo_rendered_def)
  from layout_request [OF h refl refl] h show ?thesis
    by (simp add: demo_data_def decimal.simps digit_char_def)
qed

subsection \<open>Click or drag\<close>



text \<open>
  Claim C10. A mouseup on a node whose name resolves to an element, when no mousedown box
  has been recorded (\<open>this._mouseDownBB\<close> is still \<open>undefined\<close>): the listener returns, fires
  nothing, and the only field it changes is the dragging flag, which it sets to false.
\<close>

theorem mouseUp_without_mouseDown:
  assumes "getElementById (document d) nodeName \<noteq> None"
      and "this_mouseDownBB d = None"
  shows "onMouseUp d rects nodeName = Inr (d\<lparr>this_dragging := False\<rparr>)"
  using assms by (auto simp: onMouseUp_def)

theorem mouseUp_without_mouseDown_witness:
  "getElementById (document demo_drawn) ''A'' \<noteq> None \<and> this_mouseDownBB demo_drawn = None \<and>
   onMouseUp demo_drawn (rect_at 12 12) ''A'' = Inr (demo_drawn\<lparr>this_dragging := False\<rparr>)"
proof -
  have h1: "getElementById (document demo_drawn) ''A'' \<noteq> None"
    using demo_drawn_lookups(1) by auto
  have h2: "this_mouseDownBB demo_drawn = None"
    by (rule demo_drawn_facts)
  from mouseUp_without_mouseDown [OF h1 h2] h1 h2 show ?thesis by simp
qed

subsection \<open>Updates of one element, seen in document order\<close>

lemma elements_dom_update:
  "elements (dom_update h f t) = map (\<lambda>e. if e_handle e = h then f e else e) (elements t)"
  by (induction t) (simp add: map_concat comp_def cong: map_cong)

lemma handle_set_classed [simp]: "e_handle (set_classed c flag e) = e_handle e"
  by (simp add: set_classed_def)

lemma attrs_set_classed [simp]: "e_attrs (set_classed c flag e) = e_attrs e"
  by (simp add: set_classed_def)

lemma has_class_set_classed [simp]:
  "has_class c' (set_classed c flag e) = (if c' = c then flag else has_class c' e)"
  by (auto simp: set_classed_def has_class_def)

lemma handles_sel_classed [simp]: "handles (sel_classed sel c flag t) = handles t"
  by (cases sel) (simp_all add: sel_classed_def handles_def elements_dom_update comp_def cong: if_cong)










subsection \<open>Selection\<close>




subsection \<open>Highlight\<close>


lemma highlightNode_rejected:
  "d3_select d (''#'' @ B) = Inl err \<Longrightarrow> highlightNode d ev B flag = Inl (err, d)"
  by (simp add: highlightNode_def)








text \<open>
  Apart from the guard: \<open>highlightNode\<close> finds the node with the selector \<open>"#" + name\<close>,
  where \<open>selectNode\<close> uses \<open>getElementById\<close>. When the engine refuses the selector, as
  browsers refuse \<open>"#1"\<close>, the call throws before it does anything.
\<close>

lemma highlightNode_digit_name:
  "highlightNode demo_drawn demo_enter ''1'' True = Inl (SyntaxError, demo_drawn)"
  by (simp add: highlightNode_rejected d3_select_def demo_drawn_facts demo_querySelector_def
        css_identifier_def name_start_def)

subsection \<open>Appending to an element\<close>

lemma handles_Element [simp]:
  "handles (Element e ks) = e_handle e # concat (map handles ks)"
  unfolding handles_def by (simp add: map_concat comp_def)

lemma dom_update_absent:
  "h \<notin> set (handles t) \<Longrightarrow> dom_update h f t = t"
proof (induction t)
  case (Element e ks)
  then have "map (dom_update h f) ks = ks"
    by (intro map_idI) auto
  with Element.prems show ?case by simp
qed

lemma handles_dom_append_upper:
  "h \<in> set (handles (dom_append p new t)) \<Longrightarrow> h \<in> set (handles t) \<or> h \<in> set (handles new)"
proof (induction t)
  case (Element e ks)
  show ?case
  proof (cases "e_handle e = p")
    case True
    with Element.prems show ?thesis by auto
  next
    case False
    with Element.prems consider "h = e_handle e" | k where "k \<in> set ks" "h \<in> set (handles (dom_append p new k))"
      by auto
    then show ?thesis
    proof cases
      case 1
      then show ?thesis by simp
    next
      case 2
      with Element.IH [of k] show ?thesis by auto
    qed
  qed
qed

lemma handles_dom_append_lower:
  "h \<in> set (handles t) \<Longrightarrow> h \<in> set (handles (dom_append p new t))"
proof (induction t)
  case (Element e ks)
  show ?case
  proof (cases "e_handle e = p")
    case True
    with Element.prems show ?thesis by auto
  next
    case False
    from Element.prems consider "h = e_handle e" | k where "k \<in> set ks" "h \<in> set (handles k)"
      by auto
    then show ?thesis
    proof cases
      case 1
      with False show ?thesis by simp
    next
      case 2
      with Element.IH [of k] False show ?thesis by auto
    qed
  qed
qed

lemma dom_update_append_fresh:
  assumes "n \<notin> set (handles t)" and "e_handle e = n"
  shows "dom_update n f (dom_append p (Element e []) t) = dom_append p (Element (f e) []) t"
  using assms
proof (induction t)
  case (Element e' ks)
  from Element.prems have ne: "e_handle e' \<noteq> n" and kids: "\<forall>k \<in> set ks. n \<notin> set (handles k)"
    by auto
  show ?case
  proof (cases "e_handle e' = p")
    case True
    from kids have "map (dom_update n f) ks = ks"
      by (intro map_idI) (simp add: dom_update_absent)
    with True ne Element.prems(2) show ?thesis by simp
  next
    case False
    from kids Element.prems(2)
    have "map (\<lambda>k. dom_update n f (dom_append p (Element e []) k)) ks
          = map (dom_append p (Element (f e) [])) ks"
      by (intro map_cong refl Element.IH) auto
    with False ne show ?thesis by (simp add: comp_def)
  qed
qed

lemma find_append_first:
  "find P (xs @ ys) = (case find P xs of None \<Rightarrow> find P ys | Some x \<Rightarrow> Some x)"
  by (induction xs) simp_all

lemma find_concat_related:
  assumes "\<And>k. k \<in> set ks \<Longrightarrow> find P (f' k) = map_option F (find P (f k))"
  shows "find P (concat (map f' ks)) = map_option F (find P (concat (map f ks)))"
  using assms
proof (induction ks)
  case Nil
  then show ?case by simp
next
  case (Cons k ks)
  then show ?case
    by (cases "find P (f k)") (simp_all add: find_append_first)
qed

lemma lookup_dom_append:
  "lookup p (dom_append p new t)
   = map_option (\<lambda>s. Element (root_elem s) (kids s @ [new])) (lookup p t)"
proof (induction t)
  case (Element e ks)
  show ?case
  proof (cases "e_handle e = p")
    case True
    then show ?thesis by (simp add: lookup_def)
  next
    case False
    have "find (\<lambda>s. e_handle (root_elem s) = p) (concat (map (\<lambda>k. subtrees (dom_append p new k)) ks))
          = map_option (\<lambda>s. Element (root_elem s) (kids s @ [new]))
              (find (\<lambda>s. e_handle (root_elem s) = p) (concat (map subtrees ks)))"
      using Element.IH by (intro find_concat_related) (simp add: lookup_def)
    with False show ?thesis by (simp add: lookup_def comp_def)
  qed
qed

lemma subtrees_roots: "map root_elem (subtrees t) = elements t"
  by (induction t) (simp add: map_concat comp_def cong: map_cong)

lemma lookup_present:
  assumes "p \<in> set (handles t)"
  shows "lookup p t \<noteq> None"
proof -
  from assms have "p \<in> e_handle ` set (elements t)"
    by (simp add: handles_def)
  also have "set (elements t) = root_elem ` set (subtrees t)"
    by (simp only: subtrees_roots [symmetric] set_map)
  finally obtain s where "s \<in> set (subtrees t)" "e_handle (root_elem s) = p"
    by auto
  then show ?thesis
    by (auto simp: lookup_def find_None_iff)
qed

lemma children_of_dom_append:
  assumes "p \<in> set (handles t)"
  shows "children_of p (dom_append p new t) = children_of p t @ [new]"
  using lookup_present [OF assms]
  by (auto simp: children_of_def lookup_dom_append)


lemma handle_setters [simp]:
  "e_handle (set_attr k v e) = e_handle e"
  "e_handle (set_class_attr c e) = e_handle e"
  "e_handle (set_css k v e) = e_handle e"
  "e_handle (set_listener ty l e) = e_handle e"
  "e_handle (new_elem n tg) = n"
  by (simp_all add: set_attr_def set_class_attr_def set_css_def set_listener_def new_elem_def)

lemma tag_setters [simp]:
  "e_tag (set_attr k v e) = e_tag e"
  "e_tag (set_class_attr c e) = e_tag e"
  "e_tag (new_elem n tg) = tg"
  by (simp_all add: set_attr_def set_class_attr_def new_elem_def)

lemma attr_of_setters [simp]:
  "attr_of (set_attr k v e) k' = (if k' = k then Some v else attr_of e k')"
  "attr_of (set_class_attr c e) k' = attr_of e k'"
  "attr_of (new_elem n tg) k' = None"
  by (simp_all add: set_attr_def set_class_attr_def new_elem_def attr_of_def update_conv')

text \<open>One turn of the loop of \<open>_renderEdges\<close>, when the layout has a first section for the edge.\<close>

lemma renderEdge_returns:
  assumes g: "this_group d = Some g"
      and fr: "next_handle d \<notin> set (handles (document d))"
      and le: "nth_opt (l_edges lay) i = Some le"
      and sec: "sections le = sec # rest"
  shows "\<exists>pe. renderEdge lay (i, e) d =
                Inr (d\<lparr>document := dom_append g (Element pe []) (document d),
                       next_handle := Suc (next_handle d)\<rparr>) \<and>
              e_handle pe = next_handle d \<and> e_tag pe = ''path'' \<and>
              attr_of pe ''marker-end'' =
                (if edge_type e = ''arrow'' then Some ''url(#end)'' else None)"
proof -
  let ?n = "next_handle d"
  let ?base = "set_attr ''d'' (path_d sec) (set_attr ''fill'' ''transparent''
                 (set_attr ''stroke-width'' ''2'' (set_attr ''stroke'' ''#546E7A''
                   (set_class_attr ''link'' (new_elem ?n ''path'')))))"
  let ?pe = "if edge_type e = ''arrow'' then set_attr ''marker-end'' ''url(#end)'' ?base else ?base"
  have "renderEdge lay (i, e) d =
          Inr (d\<lparr>document := dom_append g (Element ?pe []) (document d),
                 next_handle := Suc ?n\<rparr>)"
    using g fr le sec
    by (simp add: renderEdge_def d3_append_def d3_attr_def d3_attr_class_def Let_def
          dom_update_append_fresh)
  moreover have "e_handle ?pe = ?n" "e_tag ?pe = ''path''"
    "attr_of ?pe ''marker-end'' = (if edge_type e = ''arrow'' then Some ''url(#end)'' else None)"
    by simp_all
  ultimately show ?thesis by blast
qed


lemma fresh_after_append:
  assumes "fresh d" and "e_handle pe = next_handle d"
  shows "fresh (d\<lparr>document := dom_append g (Element pe []) (document d),
                  next_handle := Suc (next_handle d)\<rparr>)"
proof -
  have "h < Suc (next_handle d)"
    if "h \<in> set (handles (dom_append g (Element pe []) (document d)))" for h
    using handles_dom_append_upper [OF that] assms by (auto simp: fresh_def)
  then show ?thesis by (simp add: fresh_def)
qed

lemma fresh_next: "fresh d \<Longrightarrow> next_handle d \<notin> set (handles (document d))"
  by (auto simp: fresh_def)

subsection \<open>Edges\<close>

lemma renderEdges_loop:
  assumes "this_group d = Some g"
      and "g \<in> set (handles (document d))"
      and "fresh d"
      and "\<forall>j < length es. routed lay (k + j)"
  shows "\<exists>d' paths. forEach (renderEdge lay) (enumerate k es) d = Inr d' \<and>
           children_of g (document d') = children_of g (document d) @ paths \<and>
           length paths = length es \<and>
           (\<forall>j < length es. edge_visual (es ! j) (paths ! j)) \<and>
           this_group d' = Some g \<and> this_el d' = this_el d \<and> this_svg d' = this_svg d \<and>
           fresh d' \<and> set (handles (document d)) \<subseteq> set (handles (document d'))"
  using assms
proof (induction es arbitrary: d k)
  case Nil
  then show ?case by simp
next
  case (Cons e es)
  from Cons.prems(4) have "routed lay k" by force
  then obtain le sec rest where le: "nth_opt (l_edges lay) k = Some le" "sections le = sec # rest"
    by (auto simp: routed_def neq_Nil_conv split: option.splits)
  let ?d1 = "\<lambda>pe. d\<lparr>document := dom_append g (Element pe []) (document d),
                      next_handle := Suc (next_handle d)\<rparr>"
  from renderEdge_returns [OF Cons.prems(1) fresh_next [OF Cons.prems(3)] le, of e]
  obtain pe where pe: "renderEdge lay (k, e) d = Inr (?d1 pe)" "e_handle pe = next_handle d"
      "e_tag pe = ''path''"
      "attr_of pe ''marker-end'' = (if edge_type e = ''arrow'' then Some ''url(#end)'' else None)"
    by blast
  have g1: "this_group (?d1 pe) = Some g"
    using Cons.prems(1) by simp
  have in1: "g \<in> set (handles (document (?d1 pe)))"
    using handles_dom_append_lower [OF Cons.prems(2)] by simp
  have fr1: "fresh (?d1 pe)"
    using Cons.prems(3) pe(2) by (rule fresh_after_append)
  have rt1: "\<forall>j < length es. routed lay (Suc k + j)"
    using Cons.prems(4) by force
  from Cons.IH [OF g1 in1 fr1 rt1]
  obtain d' paths where rec:
      "forEach (renderEdge lay) (enumerate (Suc k) es) (?d1 pe) = Inr d'"
      "children_of g (document d') = children_of g (document (?d1 pe)) @ paths"
      "length paths = length es"
      "\<forall>j < length es. edge_visual (es ! j) (paths ! j)"
      "this_group d' = Some g" "this_el d' = this_el (?d1 pe)" "this_svg d' = this_svg (?d1 pe)"
      "fresh d'" "set (handles (document (?d1 pe))) \<subseteq> set (handles (document d'))"
    by blast
  have run: "forEach (renderEdge lay) (enumerate k (e # es)) d = Inr d'"
    using pe(1) rec(1) by simp
  have kids: "children_of g (document d') = children_of g (document d) @ (Element pe [] # paths)"
    using rec(2) children_of_dom_append [OF Cons.prems(2)] by simp
  have vis: "\<forall>j < length (e # es). edge_visual ((e # es) ! j) ((Element pe [] # paths) ! j)"
  proof (intro allI impI)
    fix j assume "j < length (e # es)"
    then show "edge_visual ((e # es) ! j) ((Element pe [] # paths) ! j)"
      using rec(4) pe(3,4) by (cases j) (simp_all add: edge_visual_def)
  qed
  have sub: "set (handles (document d)) \<subseteq> set (handles (document d'))"
    using rec(9) handles_dom_append_lower by fastforce
  from run kids vis rec(3,5,6,7,8) sub show ?case
    by (intro exI [of _ d'] exI [of _ "Element pe [] # paths"]) simp
qed

text \<open>
  Claim C7. Let the widget's group be in the document, the handle counter be ahead of the
  document, and the layout have a first section for every edge index. Then \<open>_renderEdges\<close>
  returns, whatever the types of the edges are, and it has appended to the group one path
  per edge, in the order of the edges; the path of an edge carries the attribute
  \<open>marker-end = "url(#end)"\<close> when the edge's type is "arrow" and no \<open>marker-end\<close> attribute
  otherwise, so neither for "link" nor for a type outside {"arrow", "link"}.
\<close>

theorem renderEdges_markers:
  assumes "this_group d = Some g"
      and "g \<in> set (handles (document d))"
      and "fresh d"
      and "\<forall>i < length (this_edges d). routed lay i"
  shows "\<exists>d' paths. renderEdges d lay = Inr d' \<and>
           children_of g (document d') = children_of g (document d) @ paths \<and>
           length paths = length (this_edges d) \<and>
           (\<forall>i < length (this_edges d).
              kids (paths ! i) = [] \<and> e_tag (root_elem (paths ! i)) = ''path'' \<and>
              attr_of (root_elem (paths ! i)) ''marker-end'' =
                (if edge_type (this_edges d ! i) = ''arrow'' then Some ''url(#end)'' else None))"
proof -
  from renderEdges_loop [of d g "this_edges d" lay 0] assms
  obtain d' paths where
      "forEach (renderEdge lay) (enumerate 0 (this_edges d)) d = Inr d'"
      "children_of g (document d') = children_of g (document d) @ paths"
      "length paths = length (this_edges d)"
      "\<forall>i < length (this_edges d). edge_visual (this_edges d ! i) (paths ! i)"
    by auto
  then show ?thesis
    by (intro exI [of _ d'] exI [of _ paths]) (simp add: renderEdges_def edge_visual_def)
qed

theorem renderEdges_markers_witness:
  "this_group demo_drawn = Some 3 \<and> 3 \<in> set (handles (document demo_drawn)) \<and>
   fresh demo_drawn \<and>
   routed demo_layout 0 \<and> routed demo_layout 1 \<and> routed demo_layout 2 \<and>
   map edge_type (this_edges demo_drawn) = [''arrow'', ''link'', ''dashed''] \<and>
   (\<exists>d' paths. renderEdges demo_drawn demo_layout = Inr d' \<and>
      children_of 3 (document d') = children_of 3 (document demo_drawn) @ paths \<and>
      length paths = 3 \<and>
      attr_of (root_elem (paths ! 0)) ''marker-end'' = Some ''url(#end)'' \<and>
      attr_of (root_elem (paths ! 1)) ''marker-end'' = None \<and>
      attr_of (root_elem (paths ! 2)) ''marker-end'' = None)"
proof -
  have h1: "this_group demo_drawn = Some 3"
    by (rule demo_drawn_facts)
  have h2: "3 \<in> set (handles (document demo_drawn))"
    by (simp add: demo_drawn_lookups)
  have h3: "fresh demo_drawn"
    by (simp add: fresh_def demo_drawn_lookups demo_drawn_facts)
  have r: "routed demo_layout 0" "routed demo_layout 1" "routed demo_layout 2"
    by (simp_all add: routed_def nth_opt_def demo_layout_def)
  have h4: "\<forall>i < length (this_edges demo_drawn). routed demo_layout i"
  proof (intro allI impI)
    fix i assume "i < length (this_edges demo_drawn)"
    then have "i = 0 \<or> i = 1 \<or> i = 2"
      by (auto simp: demo_drawn_facts)
    with r show "routed demo_layout i" by auto
  qed
  have ty: "map edge_type (this_edges demo_drawn) = [''arrow'', ''link'', ''dashed'']"
    by (rule demo_drawn_facts)
  then have tys: "edge_type (this_edges demo_drawn ! 0) = ''arrow''"
      "edge_type (this_edges demo_drawn ! 1) = ''link''"
      "edge_type (this_edges demo_drawn ! 2) = ''dashed''"
    by (simp_all add: demo_drawn_def)
  from renderEdges_markers [OF h1 h2 h3 h4]
  obtain d' paths where p: "renderEdges demo_drawn demo_layout = Inr d'"
      "children_of 3 (document d') = children_of 3 (document demo_drawn) @ paths"
      "length paths = length (this_edges demo_drawn)"
      "\<forall>i < length (this_edges demo_drawn).
              kids (paths ! i) = [] \<and> e_tag (root_elem (paths ! i)) = ''path'' \<and>
              attr_of (root_elem (paths ! i)) ''marker-end'' =
                (if edge_type (this_edges demo_drawn ! i) = ''arrow'' then Some ''url(#end)'' else None)"
    by blast
  from p(4) [rule_format, of 0] p(4) [rule_format, of 1] p(4) [rule_format, of 2] tys
  have m: "attr_of (root_elem (paths ! 0)) ''marker-end'' = Some ''url(#end)''"
      "attr_of (root_elem (paths ! 1)) ''marker-end'' = None"
      "attr_of (root_elem (paths ! 2)) ''marker-end'' = None"
    by (simp_all add: demo_drawn_facts)
  from p(1,2,3) m have "\<exists>d' paths. renderEdges demo_drawn demo_layout = Inr d' \<and>
      children_of 3 (document d') = children_of 3 (document demo_drawn) @ paths \<and>
      length paths = 3 \<and>
      attr_of (root_elem (paths ! 0)) ''marker-end'' = Some ''url(#end)'' \<and>
      attr_of (root_elem (paths ! 1)) ''marker-end'' = None \<and>
      attr_of (root_elem (paths ! 2)) ''marker-end'' = None"
    by (intro exI [of _ d'] exI [of _ paths]) (simp add: demo_drawn_facts)
  with h1 h2 h3 r ty show ?thesis by simp
qed

subsection \<open>What drawing keeps\<close>

lemma handles_dom_update:
  assumes "\<And>e. e_handle (f e) = e_handle e"
  shows "handles (dom_update h f t) = handles t"
  unfolding handles_def elements_dom_update using assms by (simp add: comp_def cong: if_cong)

lemma handle_e_html [simp]: "e_handle (e\<lparr>e_html := s\<rparr>) = e_handle e"
  by simp

lemma dom_html_absent:
  "h \<notin> set (handles t) \<Longrightarrow> dom_html h s t = t"
proof (induction t)
  case (Element e ks)
  then have "map (dom_html h s) ks = ks"
    by (intro map_idI) auto
  with Element.prems show ?case by simp
qed

lemma dom_html_append_fresh:
  assumes "n \<notin> set (handles t)" and "e_handle e = n"
  shows "dom_html n s (dom_append p (Element e []) t) = dom_append p (Element (e\<lparr>e_html := s\<rparr>) []) t"
  using assms
proof (induction t)
  case (Element e' ks)
  from Element.prems have ne: "e_handle e' \<noteq> n" and kids: "\<forall>k \<in> set ks. n \<notin> set (handles k)"
    by auto
  show ?case
  proof (cases "e_handle e' = p")
    case True
    from kids have "map (dom_html n s) ks = ks"
      by (intro map_idI) (simp add: dom_html_absent)
    with True ne Element.prems(2) show ?thesis by simp
  next
    case False
    from kids Element.prems(2)
    have "map (\<lambda>k. dom_html n s (dom_append p (Element e []) k)) ks
          = map (dom_append p (Element (e\<lparr>e_html := s\<rparr>) [])) ks"
      by (intro map_cong refl Element.IH) auto
    with False ne show ?thesis by (simp add: comp_def)
  qed
qed

lemma handles_dom_html_upper:
  "h \<in> set (handles (dom_html p s t)) \<Longrightarrow> h \<in> set (handles t)"
proof (induction t)
  case (Element e ks)
  show ?case
  proof (cases "e_handle e = p")
    case True
    with Element.prems show ?thesis by simp
  next
    case False
    with Element.prems consider "h = e_handle e" | k where "k \<in> set ks" "h \<in> set (handles (dom_html p s k))"
      by auto
    then show ?thesis
    proof cases
      case 1
      then show ?thesis by simp
    next
      case 2
      with Element.IH [of k] show ?thesis by auto
    qed
  qed
qed


lemma dom_html_keeps_outside:
  "h \<in> set (handles t) \<Longrightarrow> h \<notin> set (inside p t) \<Longrightarrow> h \<in> set (handles (dom_html p s t))"
proof (induction t)
  case (Element e ks)
  show ?case
  proof (cases "e_handle e = p")
    case True
    with Element.prems show ?thesis by auto
  next
    case False
    from Element.prems(1) consider "h = e_handle e" | k where "k \<in> set ks" "h \<in> set (handles k)"
      by auto
    then show ?thesis
    proof cases
      case 1
      with False show ?thesis by simp
    next
      case 2
      with Element.prems(2) False have "h \<notin> set (inside p k)" by auto
      with Element.IH [of k] 2 False show ?thesis by auto
    qed
  qed
qed

lemma keeps_refl: "fresh d \<Longrightarrow> keeps d d"
  by (simp add: keeps_def)

lemma keeps_trans: "keeps a b \<Longrightarrow> keeps b c \<Longrightarrow> keeps a c"
  by (auto simp: keeps_def)

lemma keeps_d3_attr: "keeps d d1 \<Longrightarrow> keeps d (d3_attr d1 h k v)"
  by (simp add: keeps_def fresh_def d3_attr_def handles_dom_update)

lemma keeps_d3_attr_class: "keeps d d1 \<Longrightarrow> keeps d (d3_attr_class d1 h v)"
  by (simp add: keeps_def fresh_def d3_attr_class_def handles_dom_update)

lemma keeps_d3_style: "keeps d d1 \<Longrightarrow> keeps d (d3_style d1 h k v)"
  by (simp add: keeps_def fresh_def d3_style_def handles_dom_update)

lemma keeps_d3_classed: "keeps d d1 \<Longrightarrow> keeps d (d3_classed d1 h c flag)"
  by (simp add: keeps_def fresh_def d3_classed_def handles_dom_update)

lemma keeps_d3_on: "keeps d d1 \<Longrightarrow> keeps d (d3_on d1 h ty l)"
  by (simp add: keeps_def fresh_def d3_on_def handles_dom_update)

lemma keeps_appended:
  assumes "keeps d d1" and "e_handle pe = next_handle d1"
  shows "keeps d (d1\<lparr>document := dom_append p (Element pe []) (document d1),
                     next_handle := Suc (next_handle d1)\<rparr>)"
proof -
  from assms have "fresh d1" by (simp add: keeps_def)
  then have "fresh (d1\<lparr>document := dom_append p (Element pe []) (document d1),
                       next_handle := Suc (next_handle d1)\<rparr>)"
    using assms(2) by (rule fresh_after_append)
  moreover have "set (handles (document d)) \<subseteq> set (handles (dom_append p (Element pe []) (document d1)))"
    using assms(1) handles_dom_append_lower by (fastforce simp: keeps_def)
  ultimately show ?thesis using assms(1) by (simp add: keeps_def)
qed

lemma keeps_d3_append: "keeps d d1 \<Longrightarrow> keeps d (snd (d3_append d1 p tg))"
  using keeps_appended [of d d1 "new_elem (next_handle d1) tg" p]
  by (simp add: d3_append_def Let_def)

lemma keeps_d3_append_html:
  assumes "keeps d d1"
  shows "keeps d (d3_html (snd (d3_append d1 p tg)) (fst (d3_append d1 p tg)) s)"
proof -
  from assms have "next_handle d1 \<notin> set (handles (document d1))"
    by (simp add: keeps_def fresh_next)
  then have "d3_html (snd (d3_append d1 p tg)) (fst (d3_append d1 p tg)) s
             = d1\<lparr>document := dom_append p (Element ((new_elem (next_handle d1) tg)\<lparr>e_html := s\<rparr>) [])
                                 (document d1),
                  next_handle := Suc (next_handle d1)\<rparr>"
    by (simp add: d3_append_def d3_html_def Let_def dom_html_append_fresh)
  with keeps_appended [OF assms, of "(new_elem (next_handle d1) tg)\<lparr>e_html := s\<rparr>" p]
  show ?thesis by simp
qed

lemmas keeps_rules =
  keeps_d3_append_html keeps_d3_attr keeps_d3_attr_class keeps_d3_style keeps_d3_classed
  keeps_d3_on keeps_d3_append

lemma renderNode_keeps:
  assumes "renderNode d node styles = Inr d'" and "fresh d"
  shows "keeps d d'"
proof (cases "this_el d")
  case None
  with assms show ?thesis by (simp add: renderNode_def Let_def)
next
  case (Some el)
  from assms(2) have base: "keeps d d" by (rule keeps_refl)
  from assms(1) show ?thesis
    unfolding renderNode_def Let_def split_beta Some option.case sum.inject
    by (elim subst) (intro keeps_rules base)
qed

lemma renderNodes_item_keeps:
  assumes "renderNodes_item lay inode d = Inr d'" and "fresh d"
  shows "keeps d d'"
  using assms
  by (auto simp: renderNodes_item_def split: option.splits intro: renderNode_keeps)




subsection \<open>When setData returns\<close>

lemma renderNode_returns:
  "this_el d = Some el \<Longrightarrow> \<exists>d'. renderNode d node styles = Inr d'"
  by (simp add: renderNode_def Let_def split_beta)

lemma renderNodes_loop:
  assumes "this_el d = Some el"
      and "fresh d"
      and "\<forall>j < length ns. k + j < length (l_children lay)"
  shows "\<exists>d'. forEach (renderNodes_item lay) (enumerate k ns) d = Inr d' \<and> keeps d d'"
  using assms
proof (induction ns arbitrary: d k)
  case Nil
  then show ?case by (simp add: keeps_refl)
next
  case (Cons n ns)
  from Cons.prems(3) have "k < length (l_children lay)" by force
  then obtain c where c: "nth_opt (l_children lay) k = Some c"
    by (simp add: nth_opt_def)
  from renderNode_returns [OF Cons.prems(1)] c
  obtain d1 where d1: "renderNodes_item lay (k, n) d = Inr d1"
    by (auto simp: renderNodes_item_def)
  from renderNodes_item_keeps [OF d1 Cons.prems(2)] have k1: "keeps d d1" .
  then have el1: "this_el d1 = Some el" and fr1: "fresh d1"
    using Cons.prems(1) by (simp_all add: keeps_def)
  have "\<forall>j < length ns. Suc k + j < length (l_children lay)"
    using Cons.prems(3) by force
  from Cons.IH [OF el1 fr1 this]
  obtain d' where d': "forEach (renderNodes_item lay) (enumerate (Suc k) ns) d1 = Inr d'" "keeps d1 d'"
    by blast
  from d1 d'(1) have "forEach (renderNodes_item lay) (enumerate k (n # ns)) d = Inr d'"
    by simp
  with keeps_trans [OF k1 d'(2)] show ?case by blast
qed

text \<open>
  \<open>setData\<close> and the callback of the layout return on a rendered widget whenever the layout
  has a child for every node and a first section for every edge.
\<close>

lemma setData_returns:
  assumes c: "this_container d = Some c"
      and el: "this_el d = Some el" and svg: "this_svg d = Some svg" and g: "this_group d = Some g"
      and fr: "fresh d"
      and ing: "g \<in> set (handles (document d))" and out: "g \<notin> set (inside el (document d))"
      and ns: "ns = (case data_nodes dat of None \<Rightarrow> [] | Some xs \<Rightarrow> xs)"
      and es: "es = (case data_edges dat of None \<Rightarrow> [] | Some xs \<Rightarrow> xs)"
      and enough: "length ns \<le> length (l_children lay)"
      and routes: "\<forall>i < length es. routed lay i"
  shows "\<exists>d'. setData_resolved d dat lay = Inr d'"
proof -
  define d0 where "d0 = (d3_html d el [])\<lparr>this_nodes := ns, this_edges := es\<rparr>"
  have start: "setData_resolved d dat lay = renderNodes_then d0 lay"
    using c el by (simp add: setData_resolved_def setData_def renderNodes_def Let_def d0_def ns es)
  have fr0: "fresh d0"
    using fr handles_dom_html_upper by (fastforce simp: fresh_def d0_def d3_html_def)
  have f0: "this_el d0 = Some el" "this_svg d0 = Some svg" "this_group d0 = Some g"
      "this_nodes d0 = ns" "this_edges d0 = es"
    using el svg g by (simp_all add: d0_def d3_html_def)
  have g0: "g \<in> set (handles (document d0))"
    using ing out by (simp add: d0_def d3_html_def dom_html_keeps_outside)
  have "\<forall>j < length ns. 0 + j < length (l_children lay)"
    using enough by simp
  from renderNodes_loop [OF f0(1) fr0 this]
  obtain d2 where d2: "forEach (renderNodes_item lay) (enumerate 0 ns) d0 = Inr d2" "keeps d0 d2"
    by blast
  from d2(2) f0 g0 have f2: "this_el d2 = Some el" "this_svg d2 = Some svg" "this_group d2 = Some g"
      "this_edges d2 = es" "fresh d2" "g \<in> set (handles (document d2))"
    by (auto simp: keeps_def)
  from renderEdges_loop [OF f2(3) f2(6) f2(5), of es lay 0] routes
  obtain d3 where d3: "forEach (renderEdge lay) (enumerate 0 es) d2 = Inr d3"
      "this_el d3 = this_el d2" "this_svg d3 = this_svg d2"
    by auto
  have "\<exists>d'. setGraphSize d3 (l_children lay) = Inr d'"
    using d3(2,3) f2(1,2) by (simp add: setGraphSize_def Let_def d3_style_def)
  with d2(1) d3(1) f0(4) f2(4) show ?thesis
    by (auto simp: start renderNodes_then_def renderEdges_def)
qed

subsection \<open>The size of the graph\<close>



lemma css_of_setters [simp]:
  "css_of (set_css k v e) k' = (if k' = k then Some v else css_of e k')"
  "css_of (set_attr k v e) k' = css_of e k'"
  "attr_of (set_css k v e) k' = attr_of e k'"
  by (simp_all add: set_css_def set_attr_def css_of_def attr_of_def update_conv')





subsection \<open>What setData and destroy leave behind\<close>

text \<open>
  Claim C1 does not hold of the code. \<open>setData\<close> empties the \<open>div\<close> of the nodes
  (\<open>this._el.html("")\<close>) and nothing empties the group of the paths. On the drawn example,
  a second \<open>setData\<close>, of one node and no edge, returns with one node box below the \<open>div\<close>,
  as it should, and with the three paths of the first dataset still below the group, after
  the \<open>defs\<close> element that \<open>render\<close> put there.
\<close>

theorem setData_leaves_old_edges:
  "\<exists>d'. setData_resolved demo_drawn demo_second_data demo_second_layout = Inr d' \<and>
      this_nodes d' = [\<lparr>node_name = ''C'', node_group = None, node_icon = None\<rparr>] \<and>
      this_edges d' = [] \<and>
      map (\<lambda>v. attr_of (root_elem v) ''id'') (children_of 7 (document d')) = [Some ''C''] \<and>
      map (\<lambda>v. e_tag (root_elem v)) (children_of 3 (document d'))
        = [''defs'', ''path'', ''path'', ''path'']"
  by (simp add: demo_drawn_def demo_second_data_def demo_second_layout_def run_defs)

text \<open>
  Claim C9 does not hold of the code. \<open>destroy\<close> clears the event registry and removes the
  \<open>div\<close> of the nodes and the group inside the \<open>svg\<close>, not the \<open>svg\<close> itself: on the drawn
  example the \<open>svg\<close> that \<open>render\<close> appended to the mount point is still its child, now
  empty.
\<close>

theorem destroy_leaves_svg:
  "\<exists>d'. destroy demo_drawn = Inr d' \<and>
      this_observable d' = [] \<and>
      map (\<lambda>v. e_tag (root_elem v)) (children_of 1 (document d')) = [''svg''] \<and>
      handles (document d') = [0, 1, 2]"
  by (simp add: demo_drawn_def run_defs handles_def)

end
